theory Spec2Isabelle
  imports Main "HOL-Library.Multiset" "HOL-Library.Sublist"
begin

section \<open>Scholar citation tracker: the model of \<open>scripts/check_citations.py\<close>\<close>

text \<open>
  The script polls a scholar profile, compares it with the stored snapshot
  (\<open>compute_diff\<close>), rewrites the snapshot (\<open>main\<close>), exports a dashboard
  projection (\<open>generate_dashboard_data\<close>) and renders an email
  (\<open>build_email_html\<close>). Network, file and mail effects are inputs and outputs
  of the functions below: the remote service is a function from the requested
  offset to its response, the clock is the parameter \<open>now\<close>.
\<close>

subsection \<open>Python strings: \<open>str.strip()\<close> and \<open>str.lower()\<close>\<close>

text \<open>
  A title is a \<open>string\<close>; a \<open>char\<close> stands for the code point of the same
  number (0 to 255). On these code points Python's \<open>str.isspace\<close> holds for
  TAB, LF, VT, FF, CR (9 to 13), FS, GS, RS, US (28 to 31), SPACE (32), NEL (133)
  and NBSP (160); \<open>str.lower\<close> maps A to Z (65 to 90) and the capital
  letters 192 to 222 other than the multiplication sign 215 to the code point 32
  higher, and leaves every other code point as it is.
\<close>

definition isspace :: "char \<Rightarrow> bool" where
  "isspace c =
     (let n = (of_char c :: nat)
      in if 9 \<le> n \<and> n \<le> 13 then True
         else if 28 \<le> n \<and> n \<le> 32 then True
         else n = 133 \<or> n = 160)"

definition lower_char :: "char \<Rightarrow> char" where
  "lower_char c =
     (let n = (of_char c :: nat)
      in if 65 \<le> n \<and> n \<le> 90 then char_of (n + 32)
         else if 192 \<le> n \<and> n \<le> 222 \<and> n \<noteq> 215 then char_of (n + 32)
         else c)"

definition strip :: "string \<Rightarrow> string" where
  "strip s = rev (dropWhile isspace (rev (dropWhile isspace s)))"

definition lower :: "string \<Rightarrow> string" where
  "lower s = map lower_char s"

text \<open>\<open>d.get(key, default)\<close> on a key that may be absent.\<close>

definition dict_get :: "'a option \<Rightarrow> 'a \<Rightarrow> 'a" where
  "dict_get v dflt = (case v of None \<Rightarrow> dflt | Some x \<Rightarrow> x)"

subsection \<open>Data: the JSON documents the script reads and builds\<close>

text \<open>
  A dictionary read from JSON is a record whose fields are \<open>option\<close>s: \<open>None\<close>
  is an absent key. Counts are integers and titles are strings, as the snapshot
  shape has them. A dictionary the script builds itself (the diff, a history
  point, the dashboard data) is a record with every field present.
\<close>

text \<open>A cell of a metrics row, \<open>{"all": n, ...}\<close>.\<close>

record metric =
  metric_all :: "int option"

text \<open>A row of \<open>profile["cited_by"]["table"]\<close>.\<close>

record table_row =
  row_citations :: "metric option"
  row_h_index :: "metric option"
  row_i10_index :: "metric option"

record cited_by_section =
  cb_table :: "table_row list option"

record author =
  author_affiliations :: "string option"

record profile =
  prof_cited_by :: "cited_by_section option"
  prof_author :: "author option"

text \<open>
  The value under an article's \<open>"cited_by"\<close> key: something that is not a
  dictionary, or a dictionary with an optional \<open>"value"\<close>.
\<close>

datatype cited_by = NotADict | CitedBy "int option"

text \<open>An article as fetched from the remote service.\<close>

record article =
  fa_title :: "string option"
  fa_cited_by :: "cited_by option"
  fa_year :: "string option"
  fa_link :: "string option"
  fa_authors :: "string option"

text \<open>An article of a stored snapshot.\<close>

record stored_article =
  sa_title :: "string option"
  sa_citation_count :: "int option"
  sa_year :: "string option"
  sa_link :: "string option"
  sa_authors :: "string option"

record history_point =
  hp_date :: string
  hp_total_citations :: int
  hp_h_index :: int
  hp_i10_index :: int

text \<open>
  The snapshot document. \<open>snap_last_checked\<close> is \<open>Some None\<close> for the JSON
  \<open>null\<close> of the default snapshot.
\<close>

record snapshot =
  snap_scholar_id :: "string option"
  snap_name :: "string option"
  snap_affiliation :: "string option"
  snap_last_checked :: "string option option"
  snap_total_citations :: "int option"
  snap_h_index :: "int option"
  snap_i10_index :: "int option"
  snap_articles :: "stored_article list option"
  snap_history :: "history_point list option"

text \<open>The diff built by \<open>compute_diff\<close>.\<close>

record totals_delta =
  total_old :: int
  total_new :: int
  total_gained :: int

record index_delta =
  index_old :: int
  index_new :: int

record article_delta =
  title :: string
  old_count :: int
  new_count :: int
  gained :: int
  year :: string

record diff =
  total_citations :: totals_delta
  h_index :: index_delta
  i10_index :: index_delta
  articles_with_new_citations :: "article_delta list"
  has_changes :: bool

subsection \<open>Diff / comparison logic\<close>

text \<open>
  The loop over the metrics table: every row that has a key overwrites the
  value found so far, so the last such row wins.
\<close>

fun metrics_loop :: "int \<times> int \<times> int \<Rightarrow> table_row list \<Rightarrow> int \<times> int \<times> int" where
  "metrics_loop acc [] = acc"
| "metrics_loop (new_total, new_h, new_i10) (row # rows) =
     metrics_loop
       ((case row_citations row of None \<Rightarrow> new_total | Some c \<Rightarrow> dict_get (metric_all c) 0),
        (case row_h_index row of None \<Rightarrow> new_h | Some c \<Rightarrow> dict_get (metric_all c) 0),
        (case row_i10_index row of None \<Rightarrow> new_i10 | Some c \<Rightarrow> dict_get (metric_all c) 0))
       rows"

text \<open>\<open>profile.get("cited_by", {}).get("table", [])\<close>\<close>

definition profile_table :: "profile \<Rightarrow> table_row list" where
  "profile_table p =
     dict_get (cb_table (dict_get (prof_cited_by p) \<lparr>cb_table = None\<rparr>)) []"

text \<open>The \<open>(total, h, i10)\<close> that \<open>compute_diff\<close> and \<open>main\<close> read off a profile.\<close>

definition current_metrics :: "profile \<Rightarrow> int \<times> int \<times> int" where
  "current_metrics p = metrics_loop (0, 0, 0) (profile_table p)"

text \<open>\<open>a.get("title", "").strip().lower()\<close> of a stored article.\<close>

definition stored_key :: "stored_article \<Rightarrow> string" where
  "stored_key a = lower (strip (dict_get (sa_title a) []))"

text \<open>
  The lookup from old data: a later article with the same key overwrites an
  earlier one, and an article with an empty key is not entered.
\<close>

fun old_articles_map_loop ::
  "(string \<rightharpoonup> stored_article) \<Rightarrow> stored_article list \<Rightarrow> (string \<rightharpoonup> stored_article)" where
  "old_articles_map_loop m [] = m"
| "old_articles_map_loop m (a # rest) =
     (let key = stored_key a
      in if key \<noteq> [] then old_articles_map_loop (m(key \<mapsto> a)) rest
         else old_articles_map_loop m rest)"

definition old_articles_map :: "snapshot \<Rightarrow> (string \<rightharpoonup> stored_article)" where
  "old_articles_map old_data =
     old_articles_map_loop Map.empty (dict_get (snap_articles old_data) [])"

text \<open>The stripped title and the key of a fetched article.\<close>

definition fetched_title :: "article \<Rightarrow> string" where
  "fetched_title a = strip (dict_get (fa_title a) [])"

definition fetched_key :: "article \<Rightarrow> string" where
  "fetched_key a = lower (fetched_title a)"

text \<open>
  \<open>a.get("cited_by", {}).get("value", 0) if isinstance(a.get("cited_by"), dict) else 0\<close>
\<close>

definition fetched_count :: "article \<Rightarrow> int" where
  "fetched_count a =
     (case fa_cited_by a of
        None \<Rightarrow> 0
      | Some NotADict \<Rightarrow> 0
      | Some (CitedBy v) \<Rightarrow> dict_get v 0)"

text \<open>
  The prior count of a key: 0, or the stored count of the article the lookup
  finds (a stored article found there has a title, so it is a non-empty,
  truthy dictionary).
\<close>

definition prior_count :: "(string \<rightharpoonup> stored_article) \<Rightarrow> string \<Rightarrow> int" where
  "prior_count m key =
     (case m key of
        None \<Rightarrow> 0
      | Some old_article \<Rightarrow> dict_get (sa_citation_count old_article) 0)"

text \<open>The entry appended for a fetched article whose count went up.\<close>

definition delta_entry :: "(string \<rightharpoonup> stored_article) \<Rightarrow> article \<Rightarrow> article_delta" where
  "delta_entry m a =
     \<lparr>title = fetched_title a,
      old_count = prior_count m (fetched_key a),
      new_count = fetched_count a,
      gained = fetched_count a - prior_count m (fetched_key a),
      year = dict_get (fa_year a) []\<rparr>"

fun new_citations_loop ::
  "(string \<rightharpoonup> stored_article) \<Rightarrow> article_delta list \<Rightarrow> article list \<Rightarrow> article_delta list" where
  "new_citations_loop m new_citations_articles [] = new_citations_articles"
| "new_citations_loop m new_citations_articles (a # rest) =
     (if fetched_count a > prior_count m (fetched_key a)
      then new_citations_loop m (new_citations_articles @ [delta_entry m a]) rest
      else new_citations_loop m new_citations_articles rest)"

definition compute_diff :: "snapshot \<Rightarrow> profile \<Rightarrow> article list \<Rightarrow> diff" where
  "compute_diff old_data prof articles =
     (case current_metrics prof of (new_total, new_h, new_i10) \<Rightarrow>
        let old_total = dict_get (snap_total_citations old_data) 0;
            old_h = dict_get (snap_h_index old_data) 0;
            old_i10 = dict_get (snap_i10_index old_data) 0
        in \<lparr>total_citations =
               \<lparr>total_old = old_total, total_new = new_total,
                total_gained = new_total - old_total\<rparr>,
             h_index = \<lparr>index_old = old_h, index_new = new_h\<rparr>,
             i10_index = \<lparr>index_old = old_i10, index_new = new_i10\<rparr>,
             articles_with_new_citations =
               new_citations_loop (old_articles_map old_data) [] articles,
             has_changes = (new_total > old_total)\<rparr>)"

subsection \<open>Configuration\<close>

definition SCHOLAR_ID :: string where
  "SCHOLAR_ID = ''R_1o4RIAAAAJ''"

definition SCHOLAR_NAME :: string where
  "SCHOLAR_NAME = ''Negar Arabzadeh''"

definition SCHOLAR_URL :: string where
  "SCHOLAR_URL = ''https://scholar.google.com/citations?user='' @ SCHOLAR_ID @ ''&hl=en''"

subsection \<open>Fetching the article pages\<close>

text \<open>
  What the script can raise: a \<open>KeyError\<close> for a key indexed directly and
  absent, and the exception of a request that fails
  (\<open>requests.get\<close>, \<open>raise_for_status\<close>).
\<close>

datatype py_error = KeyError string | RequestError

text \<open>
  The reply to one request: a failure, or the JSON document with its optional
  \<open>"articles"\<close> list.
\<close>

datatype response = RequestFailed | Json "article list option"

text \<open>
  The \<open>while True\<close> loop of \<open>fetch_all_articles\<close>, with \<open>page_size = 100\<close>:
  the remote service is asked for the page at offset \<open>start\<close>; an empty page
  ends the loop, and so does \<open>start > 500\<close> after \<open>start += page_size\<close>.
\<close>

function fetch_loop :: "(nat \<Rightarrow> response) \<Rightarrow> nat \<Rightarrow> article list \<Rightarrow> py_error + article list" where
  "fetch_loop remote start all_articles =
     (case remote start of
        RequestFailed \<Rightarrow> Inl RequestError
      | Json data \<Rightarrow>
          if dict_get data [] = [] then Inr all_articles
          else if start + 100 > 500 then Inr (all_articles @ dict_get data [])
          else fetch_loop remote (start + 100) (all_articles @ dict_get data []))"
  by pat_completeness auto
termination
  by (relation "measure (\<lambda>(remote, start, all_articles). 501 - start)") auto

definition fetch_all_articles :: "(nat \<Rightarrow> response) \<Rightarrow> py_error + article list" where
  "fetch_all_articles remote = fetch_loop remote 0 []"

subsection \<open>Python slices\<close>

text \<open>\<open>xs[:n]\<close> and, for \<open>n > 0\<close>, \<open>xs[-n:]\<close>.\<close>

definition slice_first :: "nat \<Rightarrow> 'a list \<Rightarrow> 'a list" where
  "slice_first n xs = take n xs"

definition slice_last :: "nat \<Rightarrow> 'a list \<Rightarrow> 'a list" where
  "slice_last n xs = drop (length xs - n) xs"

subsection \<open>Email rendering: the rows of the articles table\<close>

text \<open>
  \<open>sorted(articles, key=lambda x: x["gained"], reverse=True)\<close>: a stable sort
  by \<open>gained\<close> descending (entries with equal \<open>gained\<close> keep their order).
  \<open>build_email_html\<close> renders one table row for each of the first 20.
\<close>

definition articles_sorted :: "article_delta list \<Rightarrow> article_delta list" where
  "articles_sorted articles = sort_key (\<lambda>x. - gained x) articles"

definition build_email_html_rows :: "diff \<Rightarrow> article_delta list" where
  "build_email_html_rows d =
     slice_first 20 (articles_sorted (articles_with_new_citations d))"

subsection \<open>Dashboard data generation\<close>

record latest_diff =
  ld_gained :: int
  ld_articles_count :: nat

record dashboard_data =
  dash_name :: string
  dash_affiliation :: string
  dash_scholar_url :: string
  dash_total_citations :: int
  dash_h_index :: int
  dash_i10_index :: int
  dash_last_checked :: "string option"
  dash_articles :: "stored_article list"
  dash_history :: "history_point list"
  dash_latest_diff :: "latest_diff option"

text \<open>
  The dictionary \<open>generate_dashboard_data\<close> writes to \<open>docs/data.json\<close>. The
  keys \<open>name\<close>, \<open>total_citations\<close>, \<open>h_index\<close>, \<open>i10_index\<close>,
  \<open>last_checked\<close> and \<open>articles\<close> are indexed directly, in this order, and
  the first one absent raises \<open>KeyError\<close>; \<open>affiliation\<close> and \<open>history\<close>
  are read with a default. \<open>dash_latest_diff = None\<close> is the JSON \<open>null\<close>.
\<close>

definition generate_dashboard_data :: "snapshot \<Rightarrow> diff \<Rightarrow> py_error + dashboard_data" where
  "generate_dashboard_data data d =
     (case snap_name data of
        None \<Rightarrow> Inl (KeyError ''name'')
      | Some name \<Rightarrow>
     (case snap_total_citations data of
        None \<Rightarrow> Inl (KeyError ''total_citations'')
      | Some total_count \<Rightarrow>
     (case snap_h_index data of
        None \<Rightarrow> Inl (KeyError ''h_index'')
      | Some h \<Rightarrow>
     (case snap_i10_index data of
        None \<Rightarrow> Inl (KeyError ''i10_index'')
      | Some i10 \<Rightarrow>
     (case snap_last_checked data of
        None \<Rightarrow> Inl (KeyError ''last_checked'')
      | Some checked \<Rightarrow>
     (case snap_articles data of
        None \<Rightarrow> Inl (KeyError ''articles'')
      | Some articles \<Rightarrow>
          Inr \<lparr>dash_name = name,
               dash_affiliation = dict_get (snap_affiliation data) [],
               dash_scholar_url = SCHOLAR_URL,
               dash_total_citations = total_count,
               dash_h_index = h,
               dash_i10_index = i10,
               dash_last_checked = checked,
               dash_articles = slice_first 50 articles,
               dash_history = slice_last 90 (dict_get (snap_history data) []),
               dash_latest_diff =
                 (if has_changes d
                  then Some \<lparr>ld_gained = total_gained (total_citations d),
                             ld_articles_count = length (articles_with_new_citations d)\<rparr>
                  else None)\<rparr>))))))"

subsection \<open>Main: the snapshot update\<close>

text \<open>The stored form of a fetched article (step 5 of \<open>main\<close>).\<close>

definition stored_of :: "article \<Rightarrow> stored_article" where
  "stored_of a =
     \<lparr>sa_title = Some (dict_get (fa_title a) []),
      sa_citation_count = Some (fetched_count a),
      sa_year = Some (dict_get (fa_year a) []),
      sa_link = Some (dict_get (fa_link a) []),
      sa_authors = Some (dict_get (fa_authors a) [])\<rparr>"

text \<open>
  \<open>new_data\<close> as \<open>main\<close> saves it: the fresh metrics and articles, and the old
  history with the new point appended, cut to its last 365 entries.
\<close>

definition new_data :: "snapshot \<Rightarrow> profile \<Rightarrow> article list \<Rightarrow> string \<Rightarrow> snapshot" where
  "new_data old_data prof articles now =
     (case current_metrics prof of (current_total, current_h, current_i10) \<Rightarrow>
        \<lparr>snap_scholar_id = Some SCHOLAR_ID,
         snap_name = Some SCHOLAR_NAME,
         snap_affiliation =
           Some (dict_get (author_affiliations
                   (dict_get (prof_author prof) \<lparr>author_affiliations = None\<rparr>))
                 ''UC Berkeley''),
         snap_last_checked = Some (Some now),
         snap_total_citations = Some current_total,
         snap_h_index = Some current_h,
         snap_i10_index = Some current_i10,
         snap_articles = Some (map stored_of articles),
         snap_history =
           Some (slice_last 365
                  (dict_get (snap_history old_data) [] @
                   [\<lparr>hp_date = now,
                     hp_total_citations = current_total,
                     hp_h_index = current_h,
                     hp_i10_index = current_i10\<rparr>]))\<rparr>)"

text \<open>
  One run of \<open>main\<close> after the load and the fetch: the snapshot it saves, the
  dashboard data it writes (or the error raised there), and whether it goes on
  to \<open>send_email\<close>.
\<close>

definition main :: "snapshot \<Rightarrow> profile \<Rightarrow> article list \<Rightarrow> string \<Rightarrow>
    snapshot \<times> (py_error + dashboard_data) \<times> bool" where
  "main old_data prof articles now =
     (let d = compute_diff old_data prof articles;
          saved = new_data old_data prof articles now
      in (saved, generate_dashboard_data saved d, has_changes d))"

subsection \<open>Example data\<close>

text \<open>
  Small documents of each shape, used to run the functions on concrete inputs:
  a profile whose table reports the three metrics in three rows, a fetched
  article and a stored article with a title and a count, and a snapshot with a
  total, its articles and its history.
\<close>

definition example_profile :: "int \<Rightarrow> int \<Rightarrow> int \<Rightarrow> profile" where
  "example_profile n h i10 =
     \<lparr>prof_cited_by = Some \<lparr>cb_table = Some
        [\<lparr>row_citations = Some \<lparr>metric_all = Some n\<rparr>,
          row_h_index = None, row_i10_index = None\<rparr>,
         \<lparr>row_citations = None,
          row_h_index = Some \<lparr>metric_all = Some h\<rparr>, row_i10_index = None\<rparr>,
         \<lparr>row_citations = None,
          row_h_index = None, row_i10_index = Some \<lparr>metric_all = Some i10\<rparr>\<rparr>]\<rparr>,
      prof_author = None\<rparr>"

definition example_fetched :: "string \<Rightarrow> int \<Rightarrow> article" where
  "example_fetched t n =
     \<lparr>fa_title = Some t, fa_cited_by = Some (CitedBy (Some n)), fa_year = None,
      fa_link = None, fa_authors = None\<rparr>"

definition example_stored :: "string \<Rightarrow> int \<Rightarrow> stored_article" where
  "example_stored t n =
     \<lparr>sa_title = Some t, sa_citation_count = Some n, sa_year = None,
      sa_link = None, sa_authors = None\<rparr>"

definition example_snapshot ::
  "int \<Rightarrow> stored_article list \<Rightarrow> history_point list \<Rightarrow> snapshot" where
  "example_snapshot n stored hist =
     \<lparr>snap_scholar_id = Some SCHOLAR_ID, snap_name = Some SCHOLAR_NAME,
      snap_affiliation = None, snap_last_checked = Some None,
      snap_total_citations = Some n, snap_h_index = Some 0, snap_i10_index = Some 0,
      snap_articles = Some stored, snap_history = Some hist\<rparr>"

section \<open>Properties\<close>

subsection \<open>Stripping and lower-casing\<close>

lemma isspace_lower_char: "isspace (lower_char c) = isspace c"
proof -
  have "(of_char c :: nat) < 256" by simp
  then show ?thesis
    by (auto simp add: isspace_def lower_char_def Let_def)
qed

lemma lower_strip_commute: "lower (strip s) = strip (lower s)"
proof -
  have comp: "isspace \<circ> lower_char = isspace"
    by (rule ext) (simp add: isspace_lower_char)
  show ?thesis
    by (simp add: lower_def strip_def dropWhile_map rev_map comp)
qed

lemma dropWhile_all_suffix:
  assumes "\<forall>c\<in>set w. P c"
  shows "rev (dropWhile P (rev (dropWhile P (t @ w)))) = rev (dropWhile P (rev (dropWhile P t)))"
proof (cases "\<forall>c\<in>set t. P c")
  case True
  have a: "dropWhile P t = []"
    using True by (simp only: dropWhile_eq_Nil_conv)
  have b: "dropWhile P (t @ w) = []"
    using True assms by (simp only: dropWhile_eq_Nil_conv) auto
  show ?thesis unfolding a b by simp
next
  case False
  then obtain x where "x \<in> set t" "\<not> P x" by blast
  then have "dropWhile P (t @ w) = dropWhile P t @ w"
    by (simp add: dropWhile_append1)
  moreover have "dropWhile P (rev w @ rev (dropWhile P t)) = dropWhile P (rev (dropWhile P t))"
    by (rule dropWhile_append2) (use assms in simp)
  ultimately show ?thesis by simp
qed

lemma strip_surrounding:
  assumes "\<forall>c\<in>set w1. isspace c" and "\<forall>c\<in>set w2. isspace c"
  shows "strip (w1 @ t @ w2) = strip t"
proof -
  have "dropWhile isspace (w1 @ t @ w2) = dropWhile isspace (t @ w2)"
    using assms(1) by (simp add: dropWhile_append2)
  then show ?thesis
    using dropWhile_all_suffix [OF assms(2), of t] by (simp add: strip_def)
qed

subsection \<open>The two loops of \<open>compute_diff\<close>\<close>

lemma old_articles_map_loop_other:
  "\<forall>b\<in>set ys. stored_key b \<noteq> k \<Longrightarrow> old_articles_map_loop m ys k = m k"
  by (induction ys arbitrary: m) (auto simp add: Let_def)

lemma old_articles_map_loop_empty_key: "old_articles_map_loop m ys [] = m []"
  by (induction ys arbitrary: m) (auto simp add: Let_def)

lemma old_articles_map_loop_last:
  "stored_key a \<noteq> [] \<Longrightarrow> \<forall>b\<in>set ys. stored_key b \<noteq> stored_key a \<Longrightarrow>
   old_articles_map_loop m (xs @ a # ys) (stored_key a) = Some a"
  by (induction xs arbitrary: m) (auto simp add: Let_def old_articles_map_loop_other)

lemma old_articles_map_loop_filter:
  "old_articles_map_loop m (filter (\<lambda>b. stored_key b \<noteq> []) ys) = old_articles_map_loop m ys"
  by (induction ys arbitrary: m) (auto simp add: Let_def)

lemma new_citations_loop_filter:
  "new_citations_loop m acc articles =
     acc @ map (delta_entry m)
             (filter (\<lambda>a. fetched_count a > prior_count m (fetched_key a)) articles)"
  by (induction articles arbitrary: acc) auto

lemma compute_diff_articles:
  "articles_with_new_citations (compute_diff old_data prof articles) =
     map (delta_entry (old_articles_map old_data))
       (filter (\<lambda>a. fetched_count a > prior_count (old_articles_map old_data) (fetched_key a))
          articles)"
  by (simp add: compute_diff_def Let_def new_citations_loop_filter split: prod.split)

lemma compute_diff_total:
  "total_citations (compute_diff old_data prof articles) =
     \<lparr>total_old = dict_get (snap_total_citations old_data) 0,
      total_new = fst (current_metrics prof),
      total_gained = fst (current_metrics prof) - dict_get (snap_total_citations old_data) 0\<rparr>"
  by (simp add: compute_diff_def Let_def split: prod.split)

lemma compute_diff_has_changes:
  "has_changes (compute_diff old_data prof articles) =
     (fst (current_metrics prof) > dict_get (snap_total_citations old_data) 0)"
  by (simp add: compute_diff_def Let_def split: prod.split)

text \<open>
  On a table with one row per metric, the loop reads off the three \<open>"all"\<close>
  values.
\<close>

lemma current_metrics_example: "current_metrics (example_profile n h i10) = (n, h, i10)"
  by (simp add: current_metrics_def profile_table_def example_profile_def dict_get_def)

text \<open>
  The worked example of the specification: the old snapshot has total 100 and
  article A with 5 citations; the fetch reports total 103, A with 7 and B with 1.
\<close>

lemma compute_diff_worked_example:
  "compute_diff (example_snapshot 100 [example_stored ''A'' 5] []) (example_profile 103 4 2)
     [example_fetched ''A'' 7, example_fetched ''B'' 1] =
   \<lparr>total_citations = \<lparr>total_old = 100, total_new = 103, total_gained = 3\<rparr>,
    h_index = \<lparr>index_old = 0, index_new = 4\<rparr>,
    i10_index = \<lparr>index_old = 0, index_new = 2\<rparr>,
    articles_with_new_citations =
      [\<lparr>title = ''A'', old_count = 5, new_count = 7, gained = 2, year = []\<rparr>,
       \<lparr>title = ''B'', old_count = 0, new_count = 1, gained = 1, year = []\<rparr>],
    has_changes = True\<rparr>"
  by code_simp

subsection \<open>Claims about the diff\<close>

text \<open>
  Claim C1. For every old snapshot and fetched metrics, \<open>has_changes\<close> of the
  diff is true exactly when the new total (the one read off the fetched metrics
  table) is strictly greater than the old total, and \<open>total_citations.gained\<close>
  is the new total minus the old total. Hence \<open>has_changes\<close> holds exactly
  when \<open>gained\<close> is positive, and fails exactly when the new total is at most
  the old one.
\<close>

theorem compute_diff_has_changes_iff_total_increased:
  "has_changes (compute_diff old_data prof articles) =
     (fst (current_metrics prof) > dict_get (snap_total_citations old_data) 0)
   \<and> total_gained (total_citations (compute_diff old_data prof articles)) =
       fst (current_metrics prof) - dict_get (snap_total_citations old_data) 0
   \<and> total_new (total_citations (compute_diff old_data prof articles)) =
       fst (current_metrics prof)
   \<and> total_old (total_citations (compute_diff old_data prof articles)) =
       dict_get (snap_total_citations old_data) 0
   \<and> has_changes (compute_diff old_data prof articles) =
       (0 < total_gained (total_citations (compute_diff old_data prof articles)))
   \<and> (\<not> has_changes (compute_diff old_data prof articles)) =
       (fst (current_metrics prof) \<le> dict_get (snap_total_citations old_data) 0)"
  by (auto simp add: compute_diff_total compute_diff_has_changes)

text \<open>
  Claim C5. There are an old snapshot, fetched metrics and a fetched article
  list for which \<open>has_changes\<close> is true while \<open>articles_with_new_citations\<close>
  is empty: the total went from 100 to 103 while the only article stayed at 5.
\<close>

theorem compute_diff_changes_without_article_delta:
  "\<exists>old_data prof articles.
     has_changes (compute_diff old_data prof articles) \<and>
     articles_with_new_citations (compute_diff old_data prof articles) = []"
proof (intro exI conjI)
  show "has_changes (compute_diff (example_snapshot 100 [example_stored ''A'' 5] [])
          (example_profile 103 4 2) [example_fetched ''A'' 5])"
    by code_simp
  show "articles_with_new_citations
          (compute_diff (example_snapshot 100 [example_stored ''A'' 5] [])
             (example_profile 103 4 2) [example_fetched ''A'' 5]) = []"
    by code_simp
qed

subsection \<open>Lookups in the old snapshot\<close>

lemma prior_count_unseen:
  "k \<notin> stored_key ` set (dict_get (snap_articles old_data) []) \<Longrightarrow>
   prior_count (old_articles_map old_data) k = 0"
proof -
  assume "k \<notin> stored_key ` set (dict_get (snap_articles old_data) [])"
  then have "\<forall>b\<in>set (dict_get (snap_articles old_data) []). stored_key b \<noteq> k"
    by auto
  then have "old_articles_map old_data k = None"
    by (simp only: old_articles_map_def old_articles_map_loop_other)
  then show ?thesis
    by (simp add: prior_count_def)
qed

lemma old_articles_map_last:
  assumes "stored_key a \<noteq> []"
    and "dict_get (snap_articles old_data) [] = xs @ a # ys"
    and "\<forall>b\<in>set ys. stored_key b \<noteq> stored_key a"
  shows "old_articles_map old_data (stored_key a) = Some a"
  using assms by (simp add: old_articles_map_def old_articles_map_loop_last)

lemma old_articles_map_filter:
  "old_articles_map
     (old_data\<lparr>snap_articles :=
        Some (filter (\<lambda>b. stored_key b \<noteq> []) (dict_get (snap_articles old_data) []))\<rparr>) =
   old_articles_map old_data"
  by (simp add: old_articles_map_def dict_get_def old_articles_map_loop_filter)

lemma compute_diff_cong_map:
  assumes "old_articles_map old1 = old_articles_map old2"
    and "snap_total_citations old1 = snap_total_citations old2"
    and "snap_h_index old1 = snap_h_index old2"
    and "snap_i10_index old1 = snap_i10_index old2"
  shows "compute_diff old1 prof articles = compute_diff old2 prof articles"
  using assms by (simp add: compute_diff_def)

lemma title_keys_agree:
  assumes ws: "\<forall>c\<in>set (w1 @ w2 @ w3 @ w4). isspace c"
    and lo: "lower u = lower v"
    and ta: "sa_title a = Some (w1 @ u @ w2)"
    and tn: "fa_title n = Some (w3 @ v @ w4)"
  shows "stored_key a = fetched_key n"
proof -
  have "stored_key a = lower (strip u)"
    using ws ta by (simp add: stored_key_def dict_get_def strip_surrounding)
  also have "\<dots> = strip (lower v)"
    using lo by (simp add: lower_strip_commute)
  also have "\<dots> = lower (strip (w3 @ v @ w4))"
    using ws by (simp add: lower_strip_commute strip_surrounding)
  finally show ?thesis
    using tn by (simp add: fetched_key_def fetched_title_def dict_get_def)
qed

lemma articles_sorted_descending:
  "sorted_wrt (\<lambda>x y. gained x \<ge> gained y) (articles_sorted xs)"
proof -
  have "sorted (map (\<lambda>x. - gained x) (articles_sorted xs))"
    by (simp add: articles_sorted_def)
  then show ?thesis
    by (simp add: sorted_map)
qed

lemma compute_diff_singleton:
  "articles_with_new_citations (compute_diff old_data prof [n]) =
     (if prior_count (old_articles_map old_data) (fetched_key n) < fetched_count n
      then [delta_entry (old_articles_map old_data) n] else [])"
  by (simp add: compute_diff_articles)

lemma compute_diff_entry_member:
  "n \<in> set articles \<Longrightarrow>
   prior_count (old_articles_map old_data) (fetched_key n) < fetched_count n \<Longrightarrow>
   delta_entry (old_articles_map old_data) n \<in>
     set (articles_with_new_citations (compute_diff old_data prof articles))"
  by (simp add: compute_diff_articles)

text \<open>
  Claim C2. A fetched article whose normalized title (trimmed, lower-cased) is
  not the normalized title of any article of the old snapshot has prior count 0;
  if it is in the fetched list and its new count is positive, the diff lists it
  with \<open>old_count = 0\<close> and \<open>gained\<close> equal to its new count.
\<close>

theorem compute_diff_unseen_article:
  assumes "fetched_key a \<notin> stored_key ` set (dict_get (snap_articles old_data) [])"
  shows "prior_count (old_articles_map old_data) (fetched_key a) = 0 \<and>
         (a \<in> set articles \<and> 0 < fetched_count a \<longrightarrow>
            \<lparr>title = fetched_title a, old_count = 0, new_count = fetched_count a,
             gained = fetched_count a, year = dict_get (fa_year a) []\<rparr>
            \<in> set (articles_with_new_citations (compute_diff old_data prof articles)))"
proof -
  have zero: "prior_count (old_articles_map old_data) (fetched_key a) = 0"
    using assms by (rule prior_count_unseen)
  have "delta_entry (old_articles_map old_data) a \<in>
          set (articles_with_new_citations (compute_diff old_data prof articles))"
    if "a \<in> set articles" "0 < fetched_count a"
    using that zero by (simp add: compute_diff_articles)
  then show ?thesis
    using zero by (simp add: delta_entry_def)
qed

theorem compute_diff_unseen_article_witness:
  "fetched_key (example_fetched ''B'' 1) \<notin>
     stored_key ` set (dict_get (snap_articles (example_snapshot 100 [example_stored ''A'' 5] [])) [])
   \<and> prior_count (old_articles_map (example_snapshot 100 [example_stored ''A'' 5] []))
         (fetched_key (example_fetched ''B'' 1)) = 0
   \<and> \<lparr>title = ''B'', old_count = 0, new_count = 1, gained = 1, year = []\<rparr>
       \<in> set (articles_with_new_citations
                (compute_diff (example_snapshot 100 [example_stored ''A'' 5] [])
                   (example_profile 103 4 2)
                   [example_fetched ''A'' 7, example_fetched ''B'' 1]))"
proof -
  have h: "fetched_key (example_fetched ''B'' 1) \<notin>
     stored_key ` set (dict_get (snap_articles (example_snapshot 100 [example_stored ''A'' 5] [])) [])"
    by code_simp
  have m: "example_fetched ''B'' 1 \<in> set [example_fetched ''A'' 7, example_fetched ''B'' 1]
           \<and> 0 < fetched_count (example_fetched ''B'' 1)"
    by code_simp
  have e: "fetched_title (example_fetched ''B'' 1) = ''B''"
          "fetched_count (example_fetched ''B'' 1) = 1"
          "dict_get (fa_year (example_fetched ''B'' 1)) [] = []"
    by code_simp+
  show ?thesis
    using h m compute_diff_unseen_article [OF h, of "[example_fetched ''A'' 7, example_fetched ''B'' 1]" "example_profile 103 4 2"]
    unfolding e by blast
qed

text \<open>
  Claim C3, as stated for every old snapshot and every fetched list, fails when
  the titles normalize to the empty key: the stored title \<open>" "\<close> and the
  fetched title \<open>""\<close> differ only by surrounding whitespace and share the key
  \<open>""\<close>, but the stored article is not in the lookup, and the fetched article
  is reported as new with \<open>old_count = 0\<close> (not 5).
\<close>

theorem title_matching_empty_key_counterexample:
  "stored_key (example_stored '' '' 5) = fetched_key (example_fetched [] 3)
   \<and> old_articles_map (example_snapshot 0 [example_stored '' '' 5] [])
         (fetched_key (example_fetched [] 3)) = None
   \<and> articles_with_new_citations
         (compute_diff (example_snapshot 0 [example_stored '' '' 5] [])
            (example_profile 0 0 0) [example_fetched [] 3]) =
       [\<lparr>title = [], old_count = 0, new_count = 3, gained = 3, year = []\<rparr>]"
  by code_simp

text \<open>
  Claim C3, amended. When a stored title and a fetched title differ only by
  surrounding whitespace and letter case (the stored title is \<open>w1 @ u @ w2\<close>,
  the fetched one \<open>w3 @ v @ w4\<close>, the \<open>w\<close>s are whitespace and \<open>u\<close>, \<open>v\<close>
  have the same lower-casing), the two articles have the same normalized key.
  If that key is not empty and no later article of the old snapshot has the same
  key, the lookup finds that stored article for the fetched one, whose prior
  count is the stored citation count, and \<open>compute_diff\<close> reports it so: on
  the fetched article alone its list is the one entry with \<open>old_count\<close> the
  stored count and \<open>gained\<close> the difference when the count went up, and empty
  otherwise; in any fetched list that holds the article, that entry is in the
  list when the count went up. So \<open>" Foo Bar "\<close> matches \<open>"foo bar"\<close>.
\<close>

theorem title_matching_trim_case_insensitive:
  assumes "\<forall>c\<in>set (w1 @ w2 @ w3 @ w4). isspace c"
    and "lower u = lower v"
    and "sa_title a = Some (w1 @ u @ w2)"
    and "fa_title n = Some (w3 @ v @ w4)"
  shows "stored_key a = fetched_key n \<and>
         (stored_key a \<noteq> [] \<and> dict_get (snap_articles old_data) [] = xs @ a # ys \<and>
          (\<forall>b\<in>set ys. stored_key b \<noteq> stored_key a) \<longrightarrow>
            old_articles_map old_data (fetched_key n) = Some a \<and>
            prior_count (old_articles_map old_data) (fetched_key n) =
              dict_get (sa_citation_count a) 0 \<and>
            articles_with_new_citations (compute_diff old_data prof [n]) =
              (if dict_get (sa_citation_count a) 0 < fetched_count n
               then [\<lparr>title = fetched_title n,
                       old_count = dict_get (sa_citation_count a) 0,
                       new_count = fetched_count n,
                       gained = fetched_count n - dict_get (sa_citation_count a) 0,
                       year = dict_get (fa_year n) []\<rparr>]
               else []) \<and>
            (n \<in> set articles \<and> dict_get (sa_citation_count a) 0 < fetched_count n \<longrightarrow>
               \<lparr>title = fetched_title n,
                old_count = dict_get (sa_citation_count a) 0,
                new_count = fetched_count n,
                gained = fetched_count n - dict_get (sa_citation_count a) 0,
                year = dict_get (fa_year n) []\<rparr>
               \<in> set (articles_with_new_citations (compute_diff old_data prof articles))))"
proof -
  have k: "stored_key a = fetched_key n"
    using assms by (rule title_keys_agree)
  have found: "old_articles_map old_data (fetched_key n) = Some a"
    if "stored_key a \<noteq> []" "dict_get (snap_articles old_data) [] = xs @ a # ys"
       "\<forall>b\<in>set ys. stored_key b \<noteq> stored_key a"
    using old_articles_map_last [OF that] k by simp
  show ?thesis
  proof (intro conjI impI)
    show "stored_key a = fetched_key n" by (rule k)
  next
    assume h: "stored_key a \<noteq> [] \<and> dict_get (snap_articles old_data) [] = xs @ a # ys \<and>
          (\<forall>b\<in>set ys. stored_key b \<noteq> stored_key a)"
    then have f: "old_articles_map old_data (fetched_key n) = Some a"
      using found by blast
    then have p: "prior_count (old_articles_map old_data) (fetched_key n) =
        dict_get (sa_citation_count a) 0"
      by (simp add: prior_count_def)
    show "old_articles_map old_data (fetched_key n) = Some a" by (rule f)
    show "prior_count (old_articles_map old_data) (fetched_key n) =
        dict_get (sa_citation_count a) 0" by (rule p)
    show "articles_with_new_citations (compute_diff old_data prof [n]) =
              (if dict_get (sa_citation_count a) 0 < fetched_count n
               then [\<lparr>title = fetched_title n,
                       old_count = dict_get (sa_citation_count a) 0,
                       new_count = fetched_count n,
                       gained = fetched_count n - dict_get (sa_citation_count a) 0,
                       year = dict_get (fa_year n) []\<rparr>]
               else [])"
      by (simp add: compute_diff_singleton delta_entry_def p)
    show "\<lparr>title = fetched_title n,
                old_count = dict_get (sa_citation_count a) 0,
                new_count = fetched_count n,
                gained = fetched_count n - dict_get (sa_citation_count a) 0,
                year = dict_get (fa_year n) []\<rparr>
               \<in> set (articles_with_new_citations (compute_diff old_data prof articles))"
      if "n \<in> set articles \<and> dict_get (sa_citation_count a) 0 < fetched_count n"
      using compute_diff_entry_member [of n articles old_data prof] that
      by (simp add: delta_entry_def p)
  qed
qed

theorem title_matching_trim_case_insensitive_witness:
  "isspace CHR '' ''
   \<and> lower ''Foo Bar'' = lower ''foo bar''
   \<and> stored_key (example_stored '' Foo Bar '' 5) = fetched_key (example_fetched ''foo bar'' 7)
   \<and> old_articles_map (example_snapshot 100 [example_stored '' Foo Bar '' 5] [])
        (fetched_key (example_fetched ''foo bar'' 7)) = Some (example_stored '' Foo Bar '' 5)
   \<and> prior_count (old_articles_map (example_snapshot 100 [example_stored '' Foo Bar '' 5] []))
        (fetched_key (example_fetched ''foo bar'' 7)) = 5
   \<and> articles_with_new_citations
        (compute_diff (example_snapshot 100 [example_stored '' Foo Bar '' 5] [])
           (example_profile 102 4 2) [example_fetched ''foo bar'' 7]) =
       [\<lparr>title = ''foo bar'', old_count = 5, new_count = 7, gained = 2, year = []\<rparr>]
   \<and> \<lparr>title = ''foo bar'', old_count = 5, new_count = 7, gained = 2, year = []\<rparr>
       \<in> set (articles_with_new_citations
                (compute_diff (example_snapshot 100 [example_stored '' Foo Bar '' 5] [])
                   (example_profile 102 4 2)
                   [example_fetched ''Other'' 1, example_fetched ''foo bar'' 7]))"
proof -
  let ?a = "example_stored '' Foo Bar '' 5"
  let ?n = "example_fetched ''foo bar'' 7"
  let ?old = "example_snapshot 100 [?a] []"
  let ?arts = "[example_fetched ''Other'' 1, ?n]"
  have sp: "isspace CHR '' ''" by code_simp
  then have h1: "\<forall>c\<in>set ('' '' @ '' '' @ [] @ []). isspace c" by simp
  have h2: "lower ''Foo Bar'' = lower ''foo bar''" by code_simp
  have h3: "sa_title ?a = Some ('' '' @ ''Foo Bar'' @ '' '')"
    by code_simp
  have h4: "fa_title ?n = Some ([] @ ''foo bar'' @ [])"
    by code_simp
  have h5: "stored_key ?a \<noteq> [] \<and>
     dict_get (snap_articles ?old) [] = [] @ ?a # [] \<and>
     (\<forall>b\<in>set []. stored_key b \<noteq> stored_key ?a)"
    by code_simp
  have e: "dict_get (sa_citation_count ?a) 0 = 5" "fetched_count ?n = 7"
    "fetched_title ?n = ''foo bar''" "dict_get (fa_year ?n) [] = []"
    by code_simp+
  have m: "?n \<in> set ?arts" by simp
  note T = title_matching_trim_case_insensitive [OF h1 h2 h3 h4, where old_data = ?old and xs = "[]" and ys = "[]"
      and prof = "example_profile 102 4 2" and articles = ?arts]
  have key: "stored_key ?a = fetched_key ?n"
    and found: "old_articles_map ?old (fetched_key ?n) = Some ?a"
    and prior: "prior_count (old_articles_map ?old) (fetched_key ?n) = 5"
    using T h5 unfolding e by blast+
  have single: "articles_with_new_citations
        (compute_diff ?old (example_profile 102 4 2) [?n]) =
       [\<lparr>title = ''foo bar'', old_count = 5, new_count = 7, gained = 2, year = []\<rparr>]"
    using T h5 unfolding e by simp
  have member: "\<lparr>title = ''foo bar'', old_count = 5, new_count = 7, gained = 2, year = []\<rparr>
       \<in> set (articles_with_new_citations
                (compute_diff ?old (example_profile 102 4 2) ?arts))"
    using T h5 m unfolding e by simp
  show ?thesis
    by (intro conjI) (fact sp h2 key found prior single member)+
qed

text \<open>
  Claim C10. Of the old articles with one (non-empty) normalized key, the last
  in the list is the one the lookup holds, and \<open>compute_diff\<close> takes its
  citation count as the prior count of a fetched article with that key: the
  entry it reports has that count as \<open>old_count\<close>. The empty key is never in
  the lookup: old articles with an empty normalized title can be removed from
  the snapshot without changing the lookup or the diff, and a fetched article
  with an empty normalized title is reported with \<open>old_count = 0\<close> and
  \<open>gained\<close> equal to its new count whenever that count is positive.
\<close>

theorem compute_diff_duplicate_and_empty_keys:
  "(stored_key a \<noteq> [] \<and> dict_get (snap_articles old_data) [] = xs @ a # ys \<and>
    (\<forall>b\<in>set ys. stored_key b \<noteq> stored_key a) \<and> fetched_key n = stored_key a \<longrightarrow>
      old_articles_map old_data (fetched_key n) = Some a \<and>
      prior_count (old_articles_map old_data) (fetched_key n) = dict_get (sa_citation_count a) 0 \<and>
      articles_with_new_citations (compute_diff old_data prof [n]) =
        (if dict_get (sa_citation_count a) 0 < fetched_count n
         then [\<lparr>title = fetched_title n,
                 old_count = dict_get (sa_citation_count a) 0,
                 new_count = fetched_count n,
                 gained = fetched_count n - dict_get (sa_citation_count a) 0,
                 year = dict_get (fa_year n) []\<rparr>]
         else []) \<and>
      (n \<in> set articles \<and> dict_get (sa_citation_count a) 0 < fetched_count n \<longrightarrow>
         \<lparr>title = fetched_title n,
          old_count = dict_get (sa_citation_count a) 0,
          new_count = fetched_count n,
          gained = fetched_count n - dict_get (sa_citation_count a) 0,
          year = dict_get (fa_year n) []\<rparr>
         \<in> set (articles_with_new_citations (compute_diff old_data prof articles))))
   \<and> old_articles_map old_data [] = None
   \<and> (fetched_key n = [] \<longrightarrow>
        prior_count (old_articles_map old_data) (fetched_key n) = 0 \<and>
        articles_with_new_citations (compute_diff old_data prof [n]) =
          (if 0 < fetched_count n
           then [\<lparr>title = fetched_title n, old_count = 0, new_count = fetched_count n,
                   gained = fetched_count n, year = dict_get (fa_year n) []\<rparr>]
           else []) \<and>
        (n \<in> set articles \<and> 0 < fetched_count n \<longrightarrow>
           \<lparr>title = fetched_title n, old_count = 0, new_count = fetched_count n,
            gained = fetched_count n, year = dict_get (fa_year n) []\<rparr>
           \<in> set (articles_with_new_citations (compute_diff old_data prof articles))))
   \<and> old_articles_map
        (old_data\<lparr>snap_articles :=
           Some (filter (\<lambda>b. stored_key b \<noteq> []) (dict_get (snap_articles old_data) []))\<rparr>) =
      old_articles_map old_data
   \<and> compute_diff
        (old_data\<lparr>snap_articles :=
           Some (filter (\<lambda>b. stored_key b \<noteq> []) (dict_get (snap_articles old_data) []))\<rparr>)
        prof articles =
      compute_diff old_data prof articles"
proof -
  let ?m = "old_articles_map old_data"
  have entry: "articles_with_new_citations (compute_diff old_data prof [n]) =
        (if c < fetched_count n
         then [\<lparr>title = fetched_title n, old_count = c, new_count = fetched_count n,
                 gained = fetched_count n - c, year = dict_get (fa_year n) []\<rparr>]
         else []) \<and>
      (n \<in> set articles \<and> c < fetched_count n \<longrightarrow>
         \<lparr>title = fetched_title n, old_count = c, new_count = fetched_count n,
          gained = fetched_count n - c, year = dict_get (fa_year n) []\<rparr>
         \<in> set (articles_with_new_citations (compute_diff old_data prof articles)))"
    if "prior_count ?m (fetched_key n) = c" for c
    using that compute_diff_entry_member [of n articles old_data prof]
    by (auto simp add: compute_diff_singleton delta_entry_def)
  have last: "old_articles_map old_data (fetched_key n) = Some a \<and>
      prior_count ?m (fetched_key n) = dict_get (sa_citation_count a) 0"
    if "stored_key a \<noteq> [] \<and> dict_get (snap_articles old_data) [] = xs @ a # ys \<and>
       (\<forall>b\<in>set ys. stored_key b \<noteq> stored_key a) \<and> fetched_key n = stored_key a"
    using old_articles_map_last [of a old_data xs ys] that by (simp add: prior_count_def)
  have empty: "old_articles_map old_data [] = None"
    by (simp add: old_articles_map_def old_articles_map_loop_empty_key)
  have zero: "prior_count ?m (fetched_key n) = 0" if "fetched_key n = []"
    using that empty by (simp add: prior_count_def)
  have diff_eq: "compute_diff
        (old_data\<lparr>snap_articles :=
           Some (filter (\<lambda>b. stored_key b \<noteq> []) (dict_get (snap_articles old_data) []))\<rparr>)
        prof articles = compute_diff old_data prof articles"
    by (rule compute_diff_cong_map) (simp_all add: old_articles_map_filter)
  have part1: "stored_key a \<noteq> [] \<and> dict_get (snap_articles old_data) [] = xs @ a # ys \<and>
    (\<forall>b\<in>set ys. stored_key b \<noteq> stored_key a) \<and> fetched_key n = stored_key a \<longrightarrow>
      old_articles_map old_data (fetched_key n) = Some a \<and>
      prior_count (old_articles_map old_data) (fetched_key n) = dict_get (sa_citation_count a) 0 \<and>
      articles_with_new_citations (compute_diff old_data prof [n]) =
        (if dict_get (sa_citation_count a) 0 < fetched_count n
         then [\<lparr>title = fetched_title n,
                 old_count = dict_get (sa_citation_count a) 0,
                 new_count = fetched_count n,
                 gained = fetched_count n - dict_get (sa_citation_count a) 0,
                 year = dict_get (fa_year n) []\<rparr>]
         else []) \<and>
      (n \<in> set articles \<and> dict_get (sa_citation_count a) 0 < fetched_count n \<longrightarrow>
         \<lparr>title = fetched_title n,
          old_count = dict_get (sa_citation_count a) 0,
          new_count = fetched_count n,
          gained = fetched_count n - dict_get (sa_citation_count a) 0,
          year = dict_get (fa_year n) []\<rparr>
         \<in> set (articles_with_new_citations (compute_diff old_data prof articles)))"
    using last entry [of "dict_get (sa_citation_count a) 0"] by blast
  have part3: "fetched_key n = [] \<longrightarrow>
        prior_count (old_articles_map old_data) (fetched_key n) = 0 \<and>
        articles_with_new_citations (compute_diff old_data prof [n]) =
          (if 0 < fetched_count n
           then [\<lparr>title = fetched_title n, old_count = 0, new_count = fetched_count n,
                   gained = fetched_count n, year = dict_get (fa_year n) []\<rparr>]
           else []) \<and>
        (n \<in> set articles \<and> 0 < fetched_count n \<longrightarrow>
           \<lparr>title = fetched_title n, old_count = 0, new_count = fetched_count n,
            gained = fetched_count n, year = dict_get (fa_year n) []\<rparr>
           \<in> set (articles_with_new_citations (compute_diff old_data prof articles)))"
    using zero entry [of 0] by simp
  note part4 = old_articles_map_filter [of old_data]
  show ?thesis
    by (intro conjI) (fact part1 empty part3 part4 diff_eq)+
qed

theorem compute_diff_duplicate_and_empty_keys_witness:
  "stored_key (example_stored ''foo'' 9) \<noteq> []
   \<and> dict_get (snap_articles (example_snapshot 0
         [example_stored ''Foo'' 5, example_stored ''foo'' 9, example_stored ''  '' 4] [])) [] =
       [example_stored ''Foo'' 5] @ example_stored ''foo'' 9 # [example_stored ''  '' 4]
   \<and> stored_key (example_stored ''Foo'' 5) = stored_key (example_stored ''foo'' 9)
   \<and> fetched_key (example_fetched ''FOO'' 12) = stored_key (example_stored ''foo'' 9)
   \<and> prior_count (old_articles_map (example_snapshot 0
         [example_stored ''Foo'' 5, example_stored ''foo'' 9, example_stored ''  '' 4] []))
        (fetched_key (example_fetched ''FOO'' 12)) = 9
   \<and> articles_with_new_citations
        (compute_diff (example_snapshot 0
           [example_stored ''Foo'' 5, example_stored ''foo'' 9, example_stored ''  '' 4] [])
           (example_profile 0 0 0) [example_fetched ''FOO'' 12]) =
       [\<lparr>title = ''FOO'', old_count = 9, new_count = 12, gained = 3, year = []\<rparr>]
   \<and> fetched_key (example_fetched ''  '' 7) = []
   \<and> prior_count (old_articles_map (example_snapshot 0
         [example_stored ''Foo'' 5, example_stored ''foo'' 9, example_stored ''  '' 4] []))
        (fetched_key (example_fetched ''  '' 7)) = 0
   \<and> articles_with_new_citations
        (compute_diff (example_snapshot 0
           [example_stored ''Foo'' 5, example_stored ''foo'' 9, example_stored ''  '' 4] [])
           (example_profile 0 0 0) [example_fetched ''  '' 7]) =
       [\<lparr>title = [], old_count = 0, new_count = 7, gained = 7, year = []\<rparr>]
   \<and> \<lparr>title = ''FOO'', old_count = 9, new_count = 12, gained = 3, year = []\<rparr>
       \<in> set (articles_with_new_citations
           (compute_diff (example_snapshot 0
              [example_stored ''Foo'' 5, example_stored ''foo'' 9, example_stored ''  '' 4] [])
              (example_profile 0 0 0)
              [example_fetched ''  '' 7, example_fetched ''FOO'' 12]))
   \<and> \<lparr>title = [], old_count = 0, new_count = 7, gained = 7, year = []\<rparr>
       \<in> set (articles_with_new_citations
           (compute_diff (example_snapshot 0
              [example_stored ''Foo'' 5, example_stored ''foo'' 9, example_stored ''  '' 4] [])
              (example_profile 0 0 0)
              [example_fetched ''  '' 7, example_fetched ''FOO'' 12]))"
proof -
  let ?a = "example_stored ''foo'' 9"
  let ?old = "example_snapshot 0
         [example_stored ''Foo'' 5, example_stored ''foo'' 9, example_stored ''  '' 4] []"
  let ?n = "example_fetched ''FOO'' 12"
  let ?e = "example_fetched ''  '' 7"
  let ?arts = "[?e, ?n]"
  have h1: "stored_key ?a \<noteq> []" by code_simp
  have h2: "dict_get (snap_articles ?old) [] =
       [example_stored ''Foo'' 5] @ ?a # [example_stored ''  '' 4]"
    by code_simp
  have h3: "\<forall>b\<in>set [example_stored ''  '' 4]. stored_key b \<noteq> stored_key ?a"
    by code_simp
  have h4: "fetched_key ?n = stored_key ?a" by code_simp
  have h5: "stored_key (example_stored ''Foo'' 5) = stored_key ?a" by code_simp
  have h6: "fetched_key ?e = []" by code_simp
  have e: "dict_get (sa_citation_count ?a) 0 = 9"
    "fetched_count ?n = 12" "fetched_title ?n = ''FOO''" "dict_get (fa_year ?n) [] = []"
    "fetched_count ?e = 7" "fetched_title ?e = []" "dict_get (fa_year ?e) [] = []"
    by code_simp+
  have mn: "?n \<in> set ?arts" and me: "?e \<in> set ?arts" by simp_all
  note Tn = compute_diff_duplicate_and_empty_keys [where a = ?a and old_data = ?old and xs = "[example_stored ''Foo'' 5]"
      and ys = "[example_stored ''  '' 4]" and n = ?n and prof = "example_profile 0 0 0"
      and articles = ?arts]
  note Te = compute_diff_duplicate_and_empty_keys [where a = ?a and old_data = ?old and xs = "[example_stored ''Foo'' 5]"
      and ys = "[example_stored ''  '' 4]" and n = ?e and prof = "example_profile 0 0 0"
      and articles = ?arts]
  have prior_n: "prior_count (old_articles_map ?old) (fetched_key ?n) = 9"
    using Tn h1 h2 h3 h4 unfolding e by blast
  have single_n: "articles_with_new_citations (compute_diff ?old (example_profile 0 0 0) [?n]) =
       [\<lparr>title = ''FOO'', old_count = 9, new_count = 12, gained = 3, year = []\<rparr>]"
    using Tn h1 h2 h3 h4 unfolding e by simp
  have member_n: "\<lparr>title = ''FOO'', old_count = 9, new_count = 12, gained = 3, year = []\<rparr>
       \<in> set (articles_with_new_citations (compute_diff ?old (example_profile 0 0 0) ?arts))"
    using Tn h1 h2 h3 h4 mn unfolding e by simp
  have prior_e: "prior_count (old_articles_map ?old) (fetched_key ?e) = 0"
    using Te h6 by blast
  have single_e: "articles_with_new_citations (compute_diff ?old (example_profile 0 0 0) [?e]) =
       [\<lparr>title = [], old_count = 0, new_count = 7, gained = 7, year = []\<rparr>]"
    using Te h6 unfolding e by simp
  have member_e: "\<lparr>title = [], old_count = 0, new_count = 7, gained = 7, year = []\<rparr>
       \<in> set (articles_with_new_citations (compute_diff ?old (example_profile 0 0 0) ?arts))"
    using Te h6 me unfolding e by simp
  show ?thesis
    by (intro conjI)
      (fact h1 h2 h5 h4 prior_n single_n h6 prior_e single_e member_n member_e)+
qed

text \<open>
  Claim C6. \<open>compute_diff\<close> does not sort: its list is the fetched list,
  filtered to the articles whose count went up and mapped to their entries, so
  the entries stand in the order of the fetched articles (their titles are a
  subsequence of the fetched, stripped titles), and for some input that list is
  not in descending order of \<open>gained\<close>. The email rendering sorts: its rows
  are the first 20 of \<open>articles_sorted\<close>, which is a permutation of the list
  in descending order of \<open>gained\<close> that keeps the order of entries with equal
  \<open>gained\<close>.
\<close>

theorem compute_diff_keeps_fetch_order:
  "articles_with_new_citations (compute_diff old_data prof articles) =
     map (delta_entry (old_articles_map old_data))
       (filter (\<lambda>a. fetched_count a > prior_count (old_articles_map old_data) (fetched_key a))
          articles)
   \<and> subseq (map title (articles_with_new_citations (compute_diff old_data prof articles)))
        (map fetched_title articles)
   \<and> build_email_html_rows d = take 20 (articles_sorted (articles_with_new_citations d))
   \<and> sorted_wrt (\<lambda>x y. gained x \<ge> gained y) (articles_sorted xs)
   \<and> mset (articles_sorted xs) = mset xs
   \<and> filter (\<lambda>x. gained x = g) (articles_sorted xs) = filter (\<lambda>x. gained x = g) xs
   \<and> (\<exists>old_data prof articles.
        \<not> sorted_wrt (\<lambda>x y. gained x \<ge> gained y)
            (articles_with_new_citations (compute_diff old_data prof articles)))"
proof -
  let ?m = "old_articles_map old_data"
  let ?P = "\<lambda>a. fetched_count a > prior_count ?m (fetched_key a)"
  have order: "articles_with_new_citations (compute_diff old_data prof articles) =
     map (delta_entry ?m) (filter ?P articles)"
    by (rule compute_diff_articles)
  have "map title (map (delta_entry ?m) (filter ?P articles)) =
          map fetched_title (filter ?P articles)"
    by (simp add: delta_entry_def)
  moreover have "subseq (map fetched_title (filter ?P articles)) (map fetched_title articles)"
    by (simp add: subseq_map)
  ultimately have sub: "subseq (map title (articles_with_new_citations
      (compute_diff old_data prof articles))) (map fetched_title articles)"
    by (simp only: order)
  have stable: "filter (\<lambda>x. gained x = g) (articles_sorted xs) = filter (\<lambda>x. gained x = g) xs"
    using sort_key_stable [of "\<lambda>x. - gained x" "- g" xs] by (simp add: articles_sorted_def)
  have unsorted: "\<not> sorted_wrt (\<lambda>x y. gained x \<ge> gained y)
      (articles_with_new_citations
        (compute_diff (example_snapshot 100 [example_stored ''A'' 5] []) (example_profile 103 4 2)
          [example_fetched ''B'' 1, example_fetched ''A'' 7]))"
    by code_simp
  then have ex: "\<exists>old_data prof articles.
        \<not> sorted_wrt (\<lambda>x y. gained x \<ge> gained y)
            (articles_with_new_citations (compute_diff old_data prof articles))"
    by blast
  have rows: "build_email_html_rows d = take 20 (articles_sorted (articles_with_new_citations d))"
    by (simp add: build_email_html_rows_def slice_first_def)
  have perm: "mset (articles_sorted xs) = mset xs"
    by (simp add: articles_sorted_def)
  note desc = articles_sorted_descending [of xs]
  show ?thesis
    by (intro conjI) (fact order sub rows desc perm stable ex)+
qed

subsection \<open>Fetching, slices and the dashboard\<close>

lemma slice_last_length: "length (slice_last n xs) = min n (length xs)"
  by (simp add: slice_last_def)

lemma slice_last_suffix: "suffix (slice_last n xs) xs"
  by (simp add: slice_last_def suffix_drop)

lemma slice_last_snoc_last: "0 < n \<Longrightarrow> last (slice_last n (xs @ [x])) = x"
  by (simp add: slice_last_def)

lemma new_data_history:
  "snap_history (new_data old_data prof articles now) =
     Some (slice_last 365
            (dict_get (snap_history old_data) [] @
             [\<lparr>hp_date = now,
               hp_total_citations = fst (current_metrics prof),
               hp_h_index = fst (snd (current_metrics prof)),
               hp_i10_index = snd (snd (current_metrics prof))\<rparr>]))"
  by (simp add: new_data_def split: prod.split)

lemma generate_dashboard_data_returns:
  "(\<exists>dd. generate_dashboard_data data d = Inr dd) =
   (snap_name data \<noteq> None \<and> snap_total_citations data \<noteq> None \<and> snap_h_index data \<noteq> None \<and>
    snap_i10_index data \<noteq> None \<and> snap_last_checked data \<noteq> None \<and> snap_articles data \<noteq> None)"
  by (auto simp add: generate_dashboard_data_def split: option.splits)

lemma main_dashboard_returns:
  "\<exists>dd. fst (snd (main old_data prof articles now)) = Inr dd"
  by (simp add: main_def Let_def generate_dashboard_data_returns new_data_def split: prod.split)

lemma fetch_loop_full_pages:
  assumes "\<forall>start. remote start = Json (Some page)" and "page \<noteq> []"
  shows "fetch_all_articles remote = Inr (page @ page @ page @ page @ page @ page)"
  using assms by (simp add: fetch_all_articles_def dict_get_def)

lemma fetch_loop_empty_page:
  "remote start = Json (Some []) \<or> remote start = Json None \<Longrightarrow>
   fetch_loop remote start all_articles = Inr all_articles"
  by (auto simp add: dict_get_def)

lemma fetch_loop_length:
  assumes "\<forall>s d. remote s = Json d \<longrightarrow> length (dict_get d []) \<le> 100"
    and "fetch_loop remote start all_articles = Inr arts"
    and "start \<le> 500"
  shows "length arts \<le> length all_articles + 100 * (6 - start div 100)"
  using assms
proof (induction remote start all_articles rule: fetch_loop.induct)
  case (1 remote start all_articles)
  show ?case
  proof (cases "remote start")
    case RequestFailed
    with "1.prems" show ?thesis by simp
  next
    case (Json d)
    then have len: "length (dict_get d []) \<le> 100"
      using "1.prems"(1) by blast
    show ?thesis
    proof (cases "dict_get d [] = []")
      case True
      with Json "1.prems" show ?thesis by simp
    next
      case nonempty: False
      show ?thesis
      proof (cases "start + 100 > 500")
        case True
        have "start div 100 \<le> 500 div 100"
          using "1.prems"(3) by (rule div_le_mono)
        then have "1 \<le> 6 - start div 100" by simp
        then have "100 * 1 \<le> 100 * (6 - start div 100)"
          by (rule mult_le_mono2)
        then have "100 \<le> 100 * (6 - start div 100)" by simp
        moreover have "arts = all_articles @ dict_get d []"
          using Json nonempty True "1.prems"(2) by simp
        ultimately show ?thesis using len by simp
      next
        case False
        then have s: "start + 100 \<le> 500" by simp
        have rec: "fetch_loop remote (start + 100) (all_articles @ dict_get d []) = Inr arts"
          using Json nonempty False "1.prems"(2) by simp
        have "length arts \<le> length (all_articles @ dict_get d []) +
                100 * (6 - (start + 100) div 100)"
          using "1.IH" [OF Json nonempty False "1.prems"(1) rec s] .
        moreover have "(start + 100) div 100 = Suc (start div 100)" by simp
        moreover have "start div 100 \<le> 400 div 100"
          using s by (intro div_le_mono) simp
        then have "100 * (6 - Suc (start div 100)) + 100 = 100 * (6 - start div 100)"
          by (simp add: diff_mult_distrib2)
        ultimately show ?thesis using len by simp
      qed
    qed
  qed
qed

subsection \<open>Claims about the fetch, the history and the dashboard\<close>

text \<open>
  Claim C4 says the fetch returns at most 500 articles. The loop does end on an
  empty page (\<open>fetch_loop_empty_page\<close>), and with pages of at most 100
  articles it returns at most 600 (\<open>fetch_loop_length\<close>); but it tests
  \<open>start > 500\<close> after adding the page size, so it asks for the six pages at
  offsets 0, 100, ..., 500. A service that has a full page of 100 articles at
  every offset makes it return 600 articles.
\<close>

theorem fetch_all_articles_returns_600:
  "fetch_all_articles (\<lambda>start. Json (Some (replicate 100 (example_fetched ''T'' 0)))) =
     Inr (replicate 600 (example_fetched ''T'' 0))"
proof -
  have "replicate 100 (example_fetched ''T'' 0) \<noteq> []" by simp
  then have "fetch_all_articles (\<lambda>start. Json (Some (replicate 100 (example_fetched ''T'' 0)))) =
     Inr (replicate 100 (example_fetched ''T'' 0) @ replicate 100 (example_fetched ''T'' 0) @
          replicate 100 (example_fetched ''T'' 0) @ replicate 100 (example_fetched ''T'' 0) @
          replicate 100 (example_fetched ''T'' 0) @ replicate 100 (example_fetched ''T'' 0))"
    by (intro fetch_loop_full_pages) simp_all
  then show ?thesis
    by (simp add: replicate_add [symmetric])
qed

text \<open>
  Claim C7. After a run of \<open>main\<close>, the history of the saved snapshot has at
  most 365 entries (exactly the smaller of 365 and the old length plus one). It
  is a suffix of the old history with the new point appended, so what is dropped
  is dropped from the front (the oldest entries) and the new point is last.
\<close>

theorem main_history_bounded_fifo:
  "\<exists>hist.
     snap_history (fst (main old_data prof articles now)) = Some hist
     \<and> length hist \<le> 365
     \<and> length hist = min 365 (Suc (length (dict_get (snap_history old_data) [])))
     \<and> suffix hist
          (dict_get (snap_history old_data) [] @
           [\<lparr>hp_date = now,
             hp_total_citations = fst (current_metrics prof),
             hp_h_index = fst (snd (current_metrics prof)),
             hp_i10_index = snd (snd (current_metrics prof))\<rparr>])
     \<and> last hist =
          \<lparr>hp_date = now,
           hp_total_citations = fst (current_metrics prof),
           hp_h_index = fst (snd (current_metrics prof)),
           hp_i10_index = snd (snd (current_metrics prof))\<rparr>"
proof -
  let ?pt = "\<lparr>hp_date = now,
           hp_total_citations = fst (current_metrics prof),
           hp_h_index = fst (snd (current_metrics prof)),
           hp_i10_index = snd (snd (current_metrics prof))\<rparr>"
  let ?all = "dict_get (snap_history old_data) [] @ [?pt]"
  have "snap_history (fst (main old_data prof articles now)) = Some (slice_last 365 ?all)"
    by (simp add: main_def Let_def new_data_history)
  moreover have "length (slice_last 365 ?all) \<le> 365"
    by (simp add: slice_last_length)
  moreover have "length (slice_last 365 ?all) =
      min 365 (Suc (length (dict_get (snap_history old_data) [])))"
    by (simp add: slice_last_length)
  moreover have "suffix (slice_last 365 ?all) ?all"
    by (rule slice_last_suffix)
  moreover have "last (slice_last 365 ?all) = ?pt"
    by (rule slice_last_snoc_last) simp
  ultimately show ?thesis by blast
qed

text \<open>
  Claim C8. The dashboard data has \<open>latest_diff\<close> equal to
  \<open>{gained, articles_count}\<close> of the diff (its total gain and the length of
  its article list) when \<open>has_changes\<close> is true, and null otherwise. This
  holds of whatever \<open>generate_dashboard_data\<close> returns, and \<open>main\<close> always
  gets such data back for the snapshot it has built.
\<close>

theorem dashboard_latest_diff:
  "(generate_dashboard_data data d = Inr dd \<longrightarrow>
      dash_latest_diff dd =
       (if has_changes d
         then Some \<lparr>ld_gained = total_gained (total_citations d),
                    ld_articles_count = length (articles_with_new_citations d)\<rparr>
         else None))
   \<and> (\<exists>dd'. fst (snd (main old_data prof articles now)) = Inr dd' \<and>
          dash_latest_diff dd' =
           (if has_changes (compute_diff old_data prof articles)
             then Some \<lparr>ld_gained = total_gained (total_citations (compute_diff old_data prof articles)),
                        ld_articles_count = length (articles_with_new_citations (compute_diff old_data prof articles))\<rparr>
             else None))"
proof -
  have gen: "dash_latest_diff dd =
       (if has_changes d
         then Some \<lparr>ld_gained = total_gained (total_citations d),
                    ld_articles_count = length (articles_with_new_citations d)\<rparr>
         else None)"
    if "generate_dashboard_data data d = Inr dd" for data d dd
    using that by (auto simp add: generate_dashboard_data_def split: option.splits)
  obtain dd' where dd': "fst (snd (main old_data prof articles now)) = Inr dd'"
    using main_dashboard_returns by blast
  then have "generate_dashboard_data (new_data old_data prof articles now)
               (compute_diff old_data prof articles) = Inr dd'"
    by (simp add: main_def Let_def)
  from gen [OF this] dd' gen [of data d dd] show ?thesis by blast
qed

theorem dashboard_latest_diff_witness:
  "\<exists>dd. generate_dashboard_data
          (example_snapshot 103 [example_stored ''A'' 7, example_stored ''B'' 1] [])
          (compute_diff (example_snapshot 100 [example_stored ''A'' 5] [])
             (example_profile 103 4 2) [example_fetched ''A'' 7, example_fetched ''B'' 1]) = Inr dd
        \<and> dash_latest_diff dd = Some \<lparr>ld_gained = 3, ld_articles_count = 2\<rparr>"
proof -
  let ?data = "example_snapshot 103 [example_stored ''A'' 7, example_stored ''B'' 1] []"
  let ?d = "compute_diff (example_snapshot 100 [example_stored ''A'' 5] [])
             (example_profile 103 4 2) [example_fetched ''A'' 7, example_fetched ''B'' 1]"
  have "snap_name ?data \<noteq> None \<and> snap_total_citations ?data \<noteq> None \<and>
        snap_h_index ?data \<noteq> None \<and> snap_i10_index ?data \<noteq> None \<and>
        snap_last_checked ?data \<noteq> None \<and> snap_articles ?data \<noteq> None"
    by code_simp
  then obtain dd where dd: "generate_dashboard_data ?data ?d = Inr dd"
    using generate_dashboard_data_returns [of ?data ?d] by blast
  have e: "has_changes ?d" "total_gained (total_citations ?d) = 3"
    "length (articles_with_new_citations ?d) = 2"
    by code_simp+
  have "dash_latest_diff dd = Some \<lparr>ld_gained = 3, ld_articles_count = 2\<rparr>"
    using dashboard_latest_diff [of ?data ?d dd] dd by (simp add: e)
  with dd show ?thesis by blast
qed

text \<open>
  Claim C9. The dashboard data has at most 50 articles and at most 90 history
  points, whatever the sizes of the snapshot's lists. This holds of whatever
  \<open>generate_dashboard_data\<close> returns, and \<open>main\<close> always gets such data back
  for the snapshot it has built.
\<close>

theorem dashboard_lists_bounded:
  "(generate_dashboard_data data d = Inr dd \<longrightarrow>
      length (dash_articles dd) \<le> 50 \<and> length (dash_history dd) \<le> 90)
   \<and> (\<exists>dd'. fst (snd (main old_data prof articles now)) = Inr dd' \<and>
          length (dash_articles dd') \<le> 50 \<and> length (dash_history dd') \<le> 90)"
proof -
  have gen: "length (dash_articles dd) \<le> 50 \<and> length (dash_history dd) \<le> 90"
    if "generate_dashboard_data data d = Inr dd" for data d dd
    using that
    by (auto simp add: generate_dashboard_data_def slice_first_def slice_last_length
        split: option.splits)
  obtain dd' where dd': "fst (snd (main old_data prof articles now)) = Inr dd'"
    using main_dashboard_returns by blast
  then have "generate_dashboard_data (new_data old_data prof articles now)
               (compute_diff old_data prof articles) = Inr dd'"
    by (simp add: main_def Let_def)
  from gen [OF this] dd' gen [of data d dd] show ?thesis by blast
qed

theorem dashboard_lists_bounded_witness:
  "\<exists>dd. generate_dashboard_data
          (example_snapshot 0 (replicate 60 (example_stored ''A'' 1))
             (replicate 100 \<lparr>hp_date = ''d'', hp_total_citations = 0, hp_h_index = 0,
                              hp_i10_index = 0\<rparr>))
          (compute_diff (example_snapshot 0 [] []) (example_profile 0 0 0) []) = Inr dd
        \<and> length (dash_articles dd) \<le> 50 \<and> length (dash_history dd) \<le> 90"
proof -
  let ?data = "example_snapshot 0 (replicate 60 (example_stored ''A'' 1))
             (replicate 100 \<lparr>hp_date = ''d'', hp_total_citations = 0, hp_h_index = 0,
                              hp_i10_index = 0\<rparr>)"
  let ?d = "compute_diff (example_snapshot 0 [] []) (example_profile 0 0 0) []"
  have "snap_name ?data \<noteq> None \<and> snap_total_citations ?data \<noteq> None \<and>
        snap_h_index ?data \<noteq> None \<and> snap_i10_index ?data \<noteq> None \<and>
        snap_last_checked ?data \<noteq> None \<and> snap_articles ?data \<noteq> None"
    by (simp add: example_snapshot_def)
  then obtain dd where dd: "generate_dashboard_data ?data ?d = Inr dd"
    using generate_dashboard_data_returns [of ?data ?d] by blast
  from dashboard_lists_bounded [of ?data ?d dd] dd show ?thesis by blast
qed

end
